theory Spec2Isabelle
  imports Complex_Main
begin

section \<open>Common conventions\<close>

text \<open>
  The two source files are \<^verbatim>\<open>aquacrop/solution/rainfall_partition.py\<close> and
  \<^verbatim>\<open>aquacrop/initialize/read_model_parameters.py\<close>. Python's \<^verbatim>\<open>float\<close> (numba
  \<^verbatim>\<open>f8\<close>) is modelled by \<^typ>\<open>real\<close>: every arithmetic statement below is a
  statement of exact real arithmetic, and says nothing about IEEE rounding, infinities or
  NaN. Python's unbounded \<^verbatim>\<open>int\<close> is \<^typ>\<open>int\<close>. Every exception the Python
  raises is a value of the type \<open>error\<close>, returned on the left of a sum. Division
  follows Python (and numba's default error model): a zero divisor raises
  ZeroDivisionError. An index past the end of an array raises IndexError, as in Python;
  numba itself leaves such a read unchecked.
\<close>

datatype error =
    ZeroDivisionError
  | IndexError
  | ValueError string
  | AssertionError

text \<open>Python 3 \<^verbatim>\<open>round(x)\<close> with one argument: nearest integer, halves to even.\<close>

definition py_round :: "real \<Rightarrow> int" where
  "py_round x =
     (let f = \<lfloor>x\<rfloor>; d = x - of_int f
      in if d < 1 / 2 then f
         else if 1 / 2 < d then f + 1
         else if even f then f else f + 1)"

text \<open>Python \<^verbatim>\<open>int(x)\<close> on a float: truncation towards zero.\<close>

definition py_int :: "real \<Rightarrow> int" where
  "py_int x = (if 0 \<le> x then \<lfloor>x\<rfloor> else \<lceil>x\<rceil>)"

section \<open>Rainfall partition\<close>

text \<open>
  The fields of the soil-profile named tuple that \<^verbatim>\<open>rainfall_partition\<close> touches. The
  arrays are shared with the caller, so the function returns the profile it leaves
  behind next to its result, also when it raises.
\<close>

record SoilProfile =
  dzsum :: "real list"
  th_wp :: "real list"
  th_fc :: "real list"

text \<open>
  Lines 108--121: the loop \<^verbatim>\<open>for ii in range(comp_sto)\<close> that computes the weighting
  factors. Arguments: \<open>Soil_zCN\<close>, the number of iterations left, the index \<open>ii\<close>, \<open>xx\<close>,
  the array \<open>prof.dzsum\<close> and the array \<open>wrel\<close>. An index past the end of \<open>dzsum\<close> is
  Python's IndexError; a zero \<open>Soil_zCN\<close> is ZeroDivisionError, raised after the
  assignment of line 112.
\<close>

fun wrel_loop ::
  "real \<Rightarrow> nat \<Rightarrow> nat \<Rightarrow> real \<Rightarrow> real list \<Rightarrow> real list \<Rightarrow> real list \<times> (error + real list)"
where
  "wrel_loop zCN 0 ii xx dzs wrel = (dzs, Inr wrel)"
| "wrel_loop zCN (Suc n) ii xx dzs wrel =
     (if length dzs \<le> ii then (dzs, Inl IndexError)
      else
        let dzs' = (if zCN < dzs ! ii then dzs[ii := zCN] else dzs)
        in if zCN = 0 then (dzs', Inl ZeroDivisionError)
           else
             let wx = 1.016 * (1 - exp (- 4.16 * (dzs' ! ii / zCN)));
                 w = wx - xx;
                 w' = (if w < 0 then 0 else if 1 < w then 1 else w)
             in wrel_loop zCN n (Suc ii) wx dzs' (wrel[ii := w']))"

text \<open>
  Lines 124--131: the loop that accumulates \<^verbatim>\<open>wet_top\<close>. Arguments: the profile
  arrays \<open>th_wp\<close> and \<open>th_fc\<close>, \<open>InitCond_th\<close>, \<open>wrel\<close>, the number of iterations left,
  the index and the accumulator.
\<close>

fun wet_loop ::
  "real list \<Rightarrow> real list \<Rightarrow> real list \<Rightarrow> real list \<Rightarrow> nat \<Rightarrow> nat \<Rightarrow> real \<Rightarrow> error + real"
where
  "wet_loop wp fc th wrel 0 ii wet_top = Inr wet_top"
| "wet_loop wp fc th wrel (Suc n) ii wet_top =
     (if length wp \<le> ii \<or> length th \<le> ii \<or> length fc \<le> ii then Inl IndexError
      else
        let t = max (wp ! ii) (th ! ii)
        in if fc ! ii - wp ! ii = 0 then Inl ZeroDivisionError
           else wet_loop wp fc th wrel n (Suc ii)
                  (wet_top + wrel ! ii * ((t - wp ! ii) / (fc ! ii - wp ! ii))))"

text \<open>
  Lines 101--105: the number of compartments above the depth \<open>Soil_zCN\<close>.
  \<^verbatim>\<open>Soil_nComp\<close> is an \<^verbatim>\<open>f8\<close> argument of its own, not the length of the array.
\<close>

definition comp_sto :: "real \<Rightarrow> real \<Rightarrow> real list \<Rightarrow> int" where
  "comp_sto Soil_zCN Soil_nComp dzs =
     (let comp_sto_array = filter (\<lambda>d. Soil_zCN \<le> d) dzs
      in if length comp_sto_array = 0 then py_int Soil_nComp
         else py_int (Soil_nComp - real (length comp_sto_array)))"

text \<open>
  Lines 85--139: the adjustment of the curve number for antecedent moisture. The result
  is the profile as left by the first loop, and the new curve number or the exception.
\<close>

definition moisture_adjusted_CN ::
  "real \<Rightarrow> real list \<Rightarrow> real \<Rightarrow> real \<Rightarrow> SoilProfile \<Rightarrow> SoilProfile \<times> (error + real)"
where
  "moisture_adjusted_CN CN InitCond_th Soil_zCN Soil_nComp prof =
     (let CNbot = py_round (1.4 * exp (- 14 * ln 10) + 0.507 * CN
                            - 0.00374 * CN ^ 2 + 0.0000867 * CN ^ 3);
          CNtop = py_round (5.6 * exp (- 14 * ln 10) + 2.33 * CN
                            - 0.0209 * CN ^ 2 + 0.000076 * CN ^ 3);
          n = comp_sto Soil_zCN Soil_nComp (dzsum prof)
      in if n < 0 then (prof, Inl (ValueError ''negative dimensions are not allowed''))
         else
           case wrel_loop Soil_zCN (nat n) 0 0 (dzsum prof) (replicate (nat n) 0) of
             (dzs, Inl e) \<Rightarrow> (prof\<lparr>dzsum := dzs\<rparr>, Inl e)
           | (dzs, Inr wrel) \<Rightarrow>
               (prof\<lparr>dzsum := dzs\<rparr>,
                case wet_loop (th_wp prof) (th_fc prof) InitCond_th wrel (nat n) 0 0 of
                  Inl e \<Rightarrow> Inl e
                | Inr wet_top \<Rightarrow>
                    let wet_top' = (if 1 < wet_top then 1 else if wet_top < 0 then 0 else wet_top)
                    in Inr (real_of_int
                         (py_round (real_of_int CNbot
                                    + (real_of_int CNtop - real_of_int CNbot) * wet_top')))))"

text \<open>
  Lines 84--139: the curve number that reaches line 142, after the field-management
  percentage and, when \<^verbatim>\<open>Soil_AdjCN == 1\<close>, the moisture adjustment.
\<close>

definition adjusted_CN ::
  "real list \<Rightarrow> real \<Rightarrow> real \<Rightarrow> real \<Rightarrow> real \<Rightarrow> real \<Rightarrow> SoilProfile
     \<Rightarrow> SoilProfile \<times> (error + real)"
where
  "adjusted_CN InitCond_th FieldMngt_CNadjPct Soil_CN Soil_AdjCN Soil_zCN Soil_nComp prof =
     (let CN = Soil_CN * (1 + FieldMngt_CNadjPct / 100)
      in if Soil_AdjCN = 1
         then moisture_adjusted_CN CN InitCond_th Soil_zCN Soil_nComp prof
         else (prof, Inr CN))"

text \<open>The retention parameter of line 142, where the division is defined.\<close>

definition retention_S :: "real \<Rightarrow> real" where
  "retention_S CN = 25400 / CN - 254"

text \<open>
  Lines 142--149: the partition itself. Both divisions raise ZeroDivisionError on a zero
  divisor; nothing else is checked.
\<close>

definition cn_partition :: "real \<Rightarrow> real \<Rightarrow> error + real \<times> real" where
  "cn_partition precipitation CN =
     (if CN = 0 then Inl ZeroDivisionError
      else
        let S = retention_S CN;
            term = precipitation - (5 / 100) * S
        in if term \<le> 0 then Inr (0, precipitation)
           else if precipitation + (1 - 5 / 100) * S = 0 then Inl ZeroDivisionError
           else
             let Runoff = term ^ 2 / (precipitation + (1 - 5 / 100) * S)
             in Inr (Runoff, precipitation - Runoff))"

text \<open>
  The whole function. The flags \<^verbatim>\<open>FieldMngt_SRinhb\<close> and \<^verbatim>\<open>FieldMngt_Bunds\<close>
  are declared \<^verbatim>\<open>f8\<close> and compared with \<^verbatim>\<open>False\<close>, that is with zero. The result is
  \<^verbatim>\<open>(Runoff, Infl, NewCond_DaySubmerged)\<close>.
\<close>

definition rainfall_partition ::
  "real \<Rightarrow> real list \<Rightarrow> int \<Rightarrow> real \<Rightarrow> real \<Rightarrow> real \<Rightarrow> real \<Rightarrow> real \<Rightarrow> real \<Rightarrow> real \<Rightarrow> real
     \<Rightarrow> SoilProfile \<Rightarrow> SoilProfile \<times> (error + real \<times> real \<times> int)"
where
  "rainfall_partition precipitation InitCond_th NewCond_DaySubmerged FieldMngt_SRinhb
      FieldMngt_Bunds FieldMngt_zBund FieldMngt_CNadjPct Soil_CN Soil_AdjCN Soil_zCN
      Soil_nComp prof =
     (if FieldMngt_SRinhb = 0 \<and> (FieldMngt_Bunds = 0 \<or> FieldMngt_zBund < 0.001)
      then
        case adjusted_CN InitCond_th FieldMngt_CNadjPct Soil_CN Soil_AdjCN Soil_zCN
               Soil_nComp prof of
          (prof', Inl e) \<Rightarrow> (prof', Inl e)
        | (prof', Inr CN) \<Rightarrow>
            (prof',
             case cn_partition precipitation CN of
               Inl e \<Rightarrow> Inl e
             | Inr (Runoff, Infl) \<Rightarrow> Inr (Runoff, Infl, 0))
      else (prof, Inr (0, precipitation, NewCond_DaySubmerged)))"

section \<open>Dates\<close>

text \<open>
  \<^verbatim>\<open>read_model_parameters\<close> handles pandas timestamps and day/month strings such as
  \<^verbatim>\<open>"05/01"\<close>. A timestamp is modelled at day resolution as a record; a day/month
  string is the pair (month, day) it denotes; \<^verbatim>\<open>pd.to_datetime\<close> on a year and a
  day/month string is \<open>to_datetime\<close>, which raises on a date that does not exist.
  The bounds of pandas timestamps (years 1677 to 2262) are not modelled.
\<close>

record date =
  year :: int
  month :: nat
  day :: nat

type_synonym month_day = "nat \<times> nat"

definition is_leap :: "int \<Rightarrow> bool" where
  "is_leap y = (y mod 4 = 0 \<and> (y mod 100 \<noteq> 0 \<or> y mod 400 = 0))"

definition days_in_month :: "int \<Rightarrow> nat \<Rightarrow> nat" where
  "days_in_month y m =
     (if m = 2 then (if is_leap y then 29 else 28)
      else if m = 4 \<or> m = 6 \<or> m = 9 \<or> m = 11 then 30 else 31)"

definition to_datetime :: "int \<Rightarrow> month_day \<Rightarrow> error + date" where
  "to_datetime y md =
     (let m = fst md; d = snd md
      in if 1 \<le> m \<and> m \<le> 12 \<and> 1 \<le> d \<and> d \<le> days_in_month y m
         then Inr \<lparr>year = y, month = m, day = d\<rparr>
         else Inl (ValueError ''day is out of range for month''))"

definition date_less :: "date \<Rightarrow> date \<Rightarrow> bool" where
  "date_less a b =
     (year a < year b \<or> (year a = year b \<and>
        (month a < month b \<or> (month a = month b \<and> day a < day b))))"

definition date_le :: "date \<Rightarrow> date \<Rightarrow> bool" where
  "date_le a b = (date_less a b \<or> a = b)"

definition next_day :: "date \<Rightarrow> date" where
  "next_day d =
     (if day d < days_in_month (year d) (month d) then d\<lparr>day := day d + 1\<rparr>
      else if month d < 12 then d\<lparr>month := month d + 1, day := 1\<rparr>
      else \<lparr>year = year d + 1, month = 1, day = 1\<rparr>)"

definition prev_day :: "date \<Rightarrow> date" where
  "prev_day d =
     (if 1 < day d then d\<lparr>day := day d - 1\<rparr>
      else if 1 < month d
        then d\<lparr>month := month d - 1, day := days_in_month (year d) (month d - 1)\<rparr>
      else \<lparr>year = year d - 1, month = 12, day = 31\<rparr>)"

text \<open>A timestamp plus \<^verbatim>\<open>np.timedelta64(n, "D")\<close>.\<close>

definition add_days :: "int \<Rightarrow> date \<Rightarrow> date" where
  "add_days n d = (if 0 \<le> n then (next_day ^^ nat n) d else (prev_day ^^ nat (- n)) d)"

section \<open>Reading the model parameters\<close>

subsection \<open>The records\<close>

text \<open>
  The fields of the soil, crop and clock objects that the function reads or writes.
  The soil's profile is a data frame, of which the columns \<^verbatim>\<open>dz\<close> and \<^verbatim>\<open>dzsum\<close>
  matter here.
\<close>

record Soil =
  profile_dz :: "real list"
  profile_dzsum :: "real list"
  zSoil :: real

record Crop =
  Name :: string
  Zmax :: real
  CalendarType :: int
  need_calib :: int
  sfertstress :: real
  sf_es :: "real list"
  Ksexpf_es :: "real list"
  fcdecline_es :: "real list"
  Kswp_es :: "real list"
  Ksccx_es :: "real list"
  relbio_es :: "real list"
  Ksccx :: real
  Ksexpf :: real
  Kswp :: real
  fcdecline :: real
  MaturityCD :: int
  planting_date :: month_day
  harvest_date :: month_day

record ClockStruct =
  simulation_start_date :: date
  simulation_end_date :: date
  step_start_time :: date
  planting_dates :: "date list"
  harvest_dates :: "date list"
  n_seasons :: nat
  season_counter :: int

record ParamStruct =
  NCrops :: nat
  CropChoices :: "string list"

text \<open>
  What a call leaves behind: the three objects it was given, as mutated, and either the
  exception or the parameter structure it returns (the clock it returns is the object
  it was given).
\<close>

record outcome =
  soil_out :: Soil
  crop_out :: Crop
  clock_out :: ClockStruct
  returned :: "error + ParamStruct"

subsection \<open>Growing the soil column (lines 52--62)\<close>

fun cumsum_from :: "real \<Rightarrow> real list \<Rightarrow> real list" where
  "cumsum_from a [] = []"
| "cumsum_from a (x # xs) = (a + x) # cumsum_from (a + x) xs"

text \<open>
  Modelled from the spec: \<^verbatim>\<open>Soil.fill_nan\<close> is a method of the soil class, which is
  not among the sources. The spec has it recompute the cumulative depths after a change
  of a depth increment, the total column depth being the sum of the increments.
\<close>

definition fill_nan :: "Soil \<Rightarrow> Soil" where
  "fill_nan soil =
     soil\<lparr>profile_dzsum := cumsum_from 0 (profile_dz soil),
          zSoil := sum_list (profile_dz soil)\<rparr>"

text \<open>
  Lines 58--59: the scan \<^verbatim>\<open>for i in soil.profile.index[::-1]\<close> for the first
  compartment with \<^verbatim>\<open>dz < 0.25\<close>, over the indices below the second argument, from the
  highest down.
\<close>

fun deepest_thin :: "real list \<Rightarrow> nat \<Rightarrow> nat option" where
  "deepest_thin dzs 0 = None"
| "deepest_thin dzs (Suc i) = (if dzs ! i < 0.25 then Some i else deepest_thin dzs i)"

text \<open>Lines 58--62: one run of the \<^verbatim>\<open>for\<close> loop. It has no \<^verbatim>\<open>else\<close> clause.\<close>

definition grow_step :: "Soil \<Rightarrow> Soil" where
  "grow_step soil =
     (case deepest_thin (profile_dz soil) (length (profile_dz soil)) of
        None \<Rightarrow> soil
      | Some i \<Rightarrow>
          fill_nan (soil\<lparr>profile_dz := (profile_dz soil)[i := profile_dz soil ! i + 0.1]\<rparr>))"

text \<open>
  Lines 57--62: the \<^verbatim>\<open>while\<close> loop. It has no bound on its iterations, so the model
  is a partial function: \<open>None\<close> is the loop that never ends.
\<close>

partial_function (option) grow_soil :: "real \<Rightarrow> Soil \<Rightarrow> Soil option" where
  "grow_soil Zmax_crop soil =
     (if zSoil soil < Zmax_crop + 0.1 then grow_soil Zmax_crop (grow_step soil)
      else Some soil)"

text \<open>
  For the proofs about the loop: the number of times the compartments of a column can
  still be thickened.
\<close>

definition increments_left :: "real list \<Rightarrow> nat" where
  "increments_left dzs = sum_list (map (\<lambda>d. nat \<lceil>(0.25 - d) / 0.1\<rceil>) dzs)"

subsection \<open>The calibration of the soil-fertility stress (lines 161--202)\<close>

text \<open>\<^verbatim>\<open>np.argmin\<close>: the index of the first occurrence of the minimum.\<close>

fun argmin_scan :: "real list \<Rightarrow> nat \<Rightarrow> nat \<Rightarrow> real \<Rightarrow> nat" where
  "argmin_scan [] i best v = best"
| "argmin_scan (x # xs) i best v =
     (if x < v then argmin_scan xs (Suc i) i x else argmin_scan xs (Suc i) best v)"

definition np_argmin :: "real list \<Rightarrow> error + nat" where
  "np_argmin xs =
     (case xs of
        [] \<Rightarrow> Inl (ValueError ''attempt to get argmin of an empty sequence'')
      | x # xs' \<Rightarrow> Inr (argmin_scan xs' 1 0 x))"

text \<open>Reading an array at an index: IndexError past the end.\<close>

definition at_index :: "'a list \<Rightarrow> nat \<Rightarrow> error + 'a" where
  "at_index xs i = (if i < length xs then Inr (xs ! i) else Inl IndexError)"

text \<open>Line 178: \<^verbatim>\<open>np.argmin(np.abs(sf_es[0:100] - stress))\<close>.\<close>

definition closest_index :: "real list \<Rightarrow> real \<Rightarrow> error + nat" where
  "closest_index sf stress = np_argmin (map (\<lambda>s. \<bar>s - stress\<bar>) (take 100 sf))"

text \<open>
  Lines 161--202, on the crop as \<^verbatim>\<open>calibrate_soil_fert_stress\<close> returned it. The
  percentages of lines 187--190 are computed and dropped in the source, and the
  assignments of lines 197--202 write back what lines 162--167 read.
\<close>

definition calibrate_select :: "Crop \<Rightarrow> Crop \<times> (error + unit)" where
  "calibrate_select crop =
     (if sfertstress crop = 0
      then (crop, Inl (ValueError
              ''No user-specified soil fertility stress value, no default available.''))
      else
        let stress = sfertstress crop
        in case closest_index (sf_es crop) stress of
             Inl e \<Rightarrow> (crop, Inl e)
           | Inr loc \<Rightarrow>
               (case at_index (Ksccx_es crop) loc of
                  Inl e \<Rightarrow> (crop, Inl e)
                | Inr Ksccx' \<Rightarrow>
               (case at_index (Ksexpf_es crop) loc of
                  Inl e \<Rightarrow> (crop, Inl e)
                | Inr Ksexpf' \<Rightarrow>
               (case at_index (Kswp_es crop) loc of
                  Inl e \<Rightarrow> (crop, Inl e)
                | Inr Kswp' \<Rightarrow>
               (case at_index (fcdecline_es crop) loc of
                  Inl e \<Rightarrow> (crop, Inl e)
                | Inr fcdecline' \<Rightarrow>
                    (crop\<lparr>Ksccx := Ksccx', Ksexpf := Ksexpf', Kswp := Kswp',
                          fcdecline := fcdecline',
                          sf_es := sf_es crop, Ksexpf_es := Ksexpf_es crop,
                          fcdecline_es := fcdecline_es crop, Kswp_es := Kswp_es crop,
                          Ksccx_es := Ksccx_es crop, relbio_es := relbio_es crop\<rparr>,
                     Inr ()))))))"

subsection \<open>The calendar mode (lines 138--246)\<close>

text \<open>
  \<^verbatim>\<open>compute_crop_calendar\<close> and \<^verbatim>\<open>calibrate_soil_fert_stress\<close> are imported from
  modules that are not among the sources, so they are parameters \<open>ccc\<close> and \<open>csfs\<close> of the
  model: \<open>ccc\<close> maps the crop, the clock and the weather to the crop it returns and the
  arrays \<^verbatim>\<open>gdd_cum\<close>, \<^verbatim>\<open>Ksc_total\<close>, \<^verbatim>\<open>Ks_tr\<close> (of an arbitrary type), and \<open>csfs\<close> maps
  the crop and those arrays to the crop it returns. Both are taken to return, and the
  crop they return to be the one crop object of the simulation.
\<close>

definition calendar_mode ::
  "(Crop \<Rightarrow> ClockStruct \<Rightarrow> 'w \<Rightarrow> Crop \<times> 'a) \<Rightarrow> (Crop \<Rightarrow> 'a \<Rightarrow> Crop)
     \<Rightarrow> ClockStruct \<Rightarrow> 'w \<Rightarrow> Crop \<Rightarrow> Crop \<times> (error + unit)"
where
  "calendar_mode ccc csfs clock_struct weather_df crop =
     (if CalendarType crop = 2
      then
        case (if need_calib crop = 1
              then
                let (crop1, arrays) = ccc crop clock_struct weather_df
                in calibrate_select (csfs crop1 arrays)
              else (fst (ccc crop clock_struct weather_df), Inr ())) of
          (crop2, Inl e) \<Rightarrow> (crop2, Inl e)
        | (crop2, Inr _) \<Rightarrow>
            let mature = MaturityCD crop2 + 30
            in case to_datetime 1990 (planting_date crop2) of
                 Inl e \<Rightarrow> (crop2, Inl e)
               | Inr plant \<Rightarrow>
                   let harv = add_days mature plant
                   in (crop2\<lparr>harvest_date := (month harv, day harv)\<rparr>, Inr ())
      else if CalendarType crop = 1
      then (crop, Inl (ValueError
              ''You cannot currently run the soil fertility stress module in calendar days mode, please use GDD mode to continue using soil fertility stress.''))
      else (crop, Inr ()))"

subsection \<open>The planting and harvest years (lines 249--300)\<close>

text \<open>
  Lines 250--287: the two lists of years before the correction for a partial first
  season. Arguments: the crop's planting and harvest day/month, and the start and the end
  of the simulation.
\<close>

definition base_years ::
  "month_day \<Rightarrow> month_day \<Rightarrow> date \<Rightarrow> date \<Rightarrow> error + int list \<times> int list"
where
  "base_years planting harvest sim_start_date sim_end_date =
     (let start_year = year sim_start_date; end_year = year sim_end_date
      in case to_datetime 1990 planting of
           Inl e \<Rightarrow> Inl e
         | Inr plant90 \<Rightarrow>
        (case to_datetime 1990 harvest of
           Inl e \<Rightarrow> Inl e
         | Inr harv90 \<Rightarrow>
             if date_less plant90 harv90
             then
               (case to_datetime 1990 (month sim_end_date, day sim_end_date) of
                  Inl e \<Rightarrow> Inl e
                | Inr mock_simulation_end_date \<Rightarrow>
               (case to_datetime 1990 planting of
                  Inl e \<Rightarrow> Inl e
                | Inr mock_simulation_start_date \<Rightarrow>
                    let last_simulation_year_does_not_start =
                          date_le mock_simulation_end_date mock_simulation_start_date;
                        end_year' = (if last_simulation_year_does_not_start
                                     then end_year - 1 else end_year);
                        plant_years = [start_year .. end_year']
                    in Inr (plant_years, plant_years)))
             else
               (case to_datetime (end_year + 2) harvest of
                  Inl e \<Rightarrow> Inl e
                | Inr h \<Rightarrow>
                    if date_less h sim_end_date
                    then Inr ([start_year .. end_year], [start_year + 1 .. end_year + 1])
                    else Inr ([start_year .. end_year - 1], [start_year + 1 .. end_year]))))"

text \<open>
  Lines 250--300: the lists after the correction of lines 291--297 and the assertion of
  line 300. \<^verbatim>\<open>plant_years[0]\<close> on an empty list is IndexError.
\<close>

definition season_years ::
  "month_day \<Rightarrow> month_day \<Rightarrow> date \<Rightarrow> date \<Rightarrow> error + int list \<times> int list"
where
  "season_years planting harvest sim_start_date sim_end_date =
     (case base_years planting harvest sim_start_date sim_end_date of
        Inl e \<Rightarrow> Inl e
      | Inr (plant_years, harvest_years) \<Rightarrow>
          (case plant_years of
             [] \<Rightarrow> Inl IndexError
           | y0 # _ \<Rightarrow>
               (case to_datetime y0 planting of
                  Inl e \<Rightarrow> Inl e
                | Inr first_planting \<Rightarrow>
                    let (plant_years', harvest_years') =
                          (if date_less first_planting sim_start_date
                           then (drop 1 plant_years, drop 1 harvest_years)
                           else (plant_years, harvest_years))
                    in if length plant_years' = length harvest_years'
                       then Inr (plant_years', harvest_years')
                       else Inl AssertionError)))"

subsection \<open>The seasons and the counter (lines 302--332)\<close>

text \<open>\<^verbatim>\<open>pd.to_datetime\<close> on the list of strings of lines 308--314.\<close>

fun to_datetimes :: "int list \<Rightarrow> month_day \<Rightarrow> error + date list" where
  "to_datetimes [] md = Inr []"
| "to_datetimes (y # ys) md =
     (case to_datetime y md of
        Inl e \<Rightarrow> Inl e
      | Inr d \<Rightarrow> (case to_datetimes ys md of Inl e \<Rightarrow> Inl e | Inr ds \<Rightarrow> Inr (d # ds)))"

text \<open>
  Lines 302--332. The clock is written field by field, so an exception finds it partly
  written; \<^verbatim>\<open>planting_dates[0]\<close> on an empty index is IndexError.
\<close>

definition set_seasons ::
  "Crop \<Rightarrow> int list \<Rightarrow> int list \<Rightarrow> ClockStruct \<Rightarrow> ClockStruct \<times> (error + ParamStruct)"
where
  "set_seasons crop plant_years harvest_years clock_struct =
     (let crop_choices = map (\<lambda>_. Name crop) plant_years;
          param_struct = \<lparr>NCrops = 1, CropChoices = crop_choices\<rparr>
      in case to_datetimes plant_years (planting_date crop) of
           Inl e \<Rightarrow> (clock_struct, Inl e)
         | Inr pds \<Rightarrow>
        (case to_datetimes harvest_years (harvest_date crop) of
           Inl e \<Rightarrow> (clock_struct\<lparr>planting_dates := pds\<rparr>, Inl e)
         | Inr hds \<Rightarrow>
             let clock1 = clock_struct\<lparr>planting_dates := pds, harvest_dates := hds,
                                      n_seasons := length pds\<rparr>
             in case pds of
                  [] \<Rightarrow> (clock1, Inl IndexError)
                | p0 # _ \<Rightarrow>
                    (clock1\<lparr>season_counter := (if step_start_time clock1 = p0 then 0 else - 1)\<rparr>,
                     Inr param_struct)))"

subsection \<open>The function\<close>

text \<open>
  \<^verbatim>\<open>read_model_parameters\<close>. The carbon-dioxide table of lines 120--135 is read from
  a file and plays no part in what follows; it is left out. The result is \<open>None\<close> when
  the loop of line 57 never ends.
\<close>

definition after_soil ::
  "(Crop \<Rightarrow> ClockStruct \<Rightarrow> 'w \<Rightarrow> Crop \<times> 'a) \<Rightarrow> (Crop \<Rightarrow> 'a \<Rightarrow> Crop)
     \<Rightarrow> ClockStruct \<Rightarrow> Soil \<Rightarrow> Crop \<Rightarrow> 'w \<Rightarrow> outcome"
where
  "after_soil ccc csfs clock_struct soil crop weather_df =
     (case calendar_mode ccc csfs clock_struct weather_df crop of
        (crop', Inl e) \<Rightarrow>
          \<lparr>soil_out = soil, crop_out = crop', clock_out = clock_struct, returned = Inl e\<rparr>
      | (crop', Inr _) \<Rightarrow>
          (case season_years (planting_date crop') (harvest_date crop')
                  (simulation_start_date clock_struct) (simulation_end_date clock_struct) of
             Inl e \<Rightarrow>
               \<lparr>soil_out = soil, crop_out = crop', clock_out = clock_struct, returned = Inl e\<rparr>
           | Inr (plant_years, harvest_years) \<Rightarrow>
               (case set_seasons crop' plant_years harvest_years clock_struct of
                  (clock', r) \<Rightarrow>
                    \<lparr>soil_out = soil, crop_out = crop', clock_out = clock', returned = r\<rparr>)))"

definition read_model_parameters ::
  "(Crop \<Rightarrow> ClockStruct \<Rightarrow> 'w \<Rightarrow> Crop \<times> 'a) \<Rightarrow> (Crop \<Rightarrow> 'a \<Rightarrow> Crop)
     \<Rightarrow> ClockStruct \<Rightarrow> Soil \<Rightarrow> Crop \<Rightarrow> 'w \<Rightarrow> outcome option"
where
  "read_model_parameters ccc csfs clock_struct soil crop weather_df =
     (case grow_soil (Zmax crop) (fill_nan soil) of
        None \<Rightarrow> None
      | Some soil' \<Rightarrow> Some (after_soil ccc csfs clock_struct soil' crop weather_df))"

subsection \<open>Example inputs\<close>

text \<open>
  A crop planted on 10 May whose calendar is in growing degree days, a soil column of one
  metre in four compartments, a clock, and stand-ins for the two imported functions that
  return the crop as they got it.
\<close>

definition crop0 :: Crop where
  "crop0 = \<lparr>Name = ''Maize'', Zmax = 0.5, CalendarType = 2, need_calib = 0, sfertstress = 0.2,
             sf_es = [0, 0.1, 0.2, 0.3], Ksexpf_es = [1, 0.9, 0.8, 0.7],
             fcdecline_es = [0, 0.01, 0.02, 0.03], Kswp_es = [1, 0.95, 0.9, 0.85],
             Ksccx_es = [1, 0.97, 0.94, 0.91], relbio_es = [1, 0.9, 0.8, 0.7],
             Ksccx = 1, Ksexpf = 1, Kswp = 1, fcdecline = 0,
             MaturityCD = 100, planting_date = (5, 10), harvest_date = (9, 10)\<rparr>"

definition soil0 :: Soil where
  "soil0 = \<lparr>profile_dz = [0.25, 0.25, 0.25, 0.25], profile_dzsum = [0.25, 0.5, 0.75, 1],
             zSoil = 1\<rparr>"

definition clock0 :: "int \<Rightarrow> nat \<Rightarrow> nat \<Rightarrow> int \<Rightarrow> nat \<Rightarrow> nat \<Rightarrow> ClockStruct" where
  "clock0 y1 m1 d1 y2 m2 d2 =
     \<lparr>simulation_start_date = \<lparr>year = y1, month = m1, day = d1\<rparr>,
      simulation_end_date = \<lparr>year = y2, month = m2, day = d2\<rparr>,
      step_start_time = \<lparr>year = y1, month = m1, day = d1\<rparr>,
      planting_dates = [], harvest_dates = [], n_seasons = 0, season_counter = 0\<rparr>"

definition ccc_id :: "Crop \<Rightarrow> ClockStruct \<Rightarrow> unit \<Rightarrow> Crop \<times> unit" where
  "ccc_id crop clock_struct weather_df = (crop, ())"

definition csfs_id :: "Crop \<Rightarrow> unit \<Rightarrow> Crop" where
  "csfs_id crop arrays = crop"


text \<open>A soil column of a single compartment, 0.3 m thick.\<close>

definition soil_thick :: Soil where
  "soil_thick = \<lparr>profile_dz = [0.3], profile_dzsum = [0.3], zSoil = 0.3\<rparr>"

text \<open>A profile of three compartments, used in the examples.\<close>

definition prof0 :: SoilProfile where
  "prof0 = \<lparr>dzsum = [0.1, 0.2, 0.5], th_wp = [0.1, 0.1, 0.1], th_fc = [0.3, 0.3, 0.3]\<rparr>"

section \<open>Properties of the rainfall partition\<close>

subsection \<open>Arithmetic of the curve-number formula\<close>



lemma retention_S_neg: "CN < 0 \<Longrightarrow> retention_S CN < - 254"
  by (simp add: retention_S_def field_simps)



text \<open>The branch of line 79, once the curve number of line 142 is known.\<close>

lemma rainfall_partition_open:
  assumes "FieldMngt_SRinhb = 0" "FieldMngt_Bunds = 0 \<or> FieldMngt_zBund < 0.001"
    and "adjusted_CN th pct cn0 adj zCN nComp prof = (prof', Inr CN)"
  shows "rainfall_partition P th ds FieldMngt_SRinhb FieldMngt_Bunds FieldMngt_zBund pct cn0 adj
           zCN nComp prof =
         (prof', case cn_partition P CN of Inl e \<Rightarrow> Inl e
                 | Inr (Runoff, Infl) \<Rightarrow> Inr (Runoff, Infl, 0))"
  using assms by (auto simp: rainfall_partition_def)

subsection \<open>Two evaluations\<close>

text \<open>
  The spec's example: 20 mm of rain on a curve number of 75 with no adjustment give a
  runoff of about 2.47 mm.
\<close>

lemma rainfall_partition_example:
  "rainfall_partition 20 [] 4 0 0 0 0 75 0 1 1 prof0
     = (prof0, Inr (223729 / 90390, 1584071 / 90390, 0))
   \<and> (2.46::real) < 223729 / 90390 \<and> (223729 / 90390 :: real) < 2.48"
  by (simp add: rainfall_partition_def adjusted_CN_def cn_partition_def retention_S_def
      power2_eq_square)





subsection \<open>Conservation\<close>




subsection \<open>Non-positive curve numbers\<close>

text \<open>
  Claim C2, as the code has it. The function has no guard on the curve number. With
  runoff not inhibited and a curve number \<open>CN \<le> 0\<close> reaching line 142: for \<open>CN = 0\<close> the
  division itself raises ZeroDivisionError; for \<open>CN < 0\<close> the division is performed,
  \<open>S < -254\<close>, and the partition goes on as for any other value (it returns, unless the
  second divisor \<open>P + 0.95 S\<close> is zero).
\<close>

theorem rainfall_partition_nonpositive_CN:
  assumes "CN \<le> 0"
    and "FieldMngt_SRinhb = 0" "FieldMngt_Bunds = 0 \<or> FieldMngt_zBund < 0.001"
    and "adjusted_CN th pct cn0 adj zCN nComp prof = (prof', Inr CN)"
  shows "rainfall_partition P th ds FieldMngt_SRinhb FieldMngt_Bunds FieldMngt_zBund pct cn0
           adj zCN nComp prof =
         (prof',
          if CN = 0 then Inl ZeroDivisionError
          else if P - (5 / 100) * retention_S CN \<le> 0 then Inr (0, P, 0)
          else if P + (1 - 5 / 100) * retention_S CN = 0 then Inl ZeroDivisionError
          else Inr ((P - (5 / 100) * retention_S CN) ^ 2 / (P + (1 - 5 / 100) * retention_S CN),
                    P - (P - (5 / 100) * retention_S CN) ^ 2
                          / (P + (1 - 5 / 100) * retention_S CN), 0))
         \<and> (CN < 0 \<longrightarrow> retention_S CN < - 254)"
  using rainfall_partition_open [OF assms(2-4)] retention_S_neg [of CN]
  by (simp add: cn_partition_def Let_def)

theorem rainfall_partition_nonpositive_CN_witness:
  "(0::real) \<le> 0 \<and> adjusted_CN [] 0 0 0 1 1 prof0 = (prof0, Inr 0) \<and>
   rainfall_partition 20 [] 4 0 0 0 0 0 0 1 1 prof0 = (prof0, Inl ZeroDivisionError)"
proof -
  have a: "adjusted_CN [] 0 0 0 1 1 prof0 = (prof0, Inr 0)"
    by (simp add: adjusted_CN_def)
  show ?thesis
    using a rainfall_partition_nonpositive_CN
      [of 0 0 0 0 "[]" 0 0 0 1 1 prof0 prof0 20 4, OF _ _ _ a]
    by simp
qed

text \<open>
  A curve number of \<open>-100\<close> with no rain: no exception, and a negative runoff is
  returned.
\<close>

theorem rainfall_partition_negative_CN_returns:
  "adjusted_CN [] 0 (- 100) 0 1 1 prof0 = (prof0, Inr (- 100)) \<and>
   rainfall_partition 0 [] 4 0 0 0 0 (- 100) 0 1 1 prof0
     = (prof0, Inr (- (127 / 95), 127 / 95, 0))"
  by (simp add: adjusted_CN_def rainfall_partition_def cn_partition_def retention_S_def
      power2_eq_square)

subsection \<open>The field-management override\<close>

text \<open>
  Claim C6. For every precipitation \<open>P \<ge> 0\<close>: if surface runoff is inhibited, or bunds
  are present with a height of at least 0.001, the function returns \<open>Runoff = 0\<close>,
  \<open>Infl = P\<close> and \<open>days_submerged\<close> as it was given, and leaves the profile alone. In
  every other case whatever it returns carries \<open>days_submerged = 0\<close>, and \<open>Runoff\<close> and
  \<open>Infl\<close> are the curve-number partition of \<open>P\<close>.
\<close>

theorem rainfall_partition_override:
  assumes "0 \<le> P"
  shows "if FieldMngt_SRinhb \<noteq> 0 \<or> (FieldMngt_Bunds \<noteq> 0 \<and> 0.001 \<le> FieldMngt_zBund)
         then rainfall_partition P th ds FieldMngt_SRinhb FieldMngt_Bunds FieldMngt_zBund pct cn0
                adj zCN nComp prof = (prof, Inr (0, P, ds))
         else (\<forall>prof' Runoff Infl d.
                 rainfall_partition P th ds FieldMngt_SRinhb FieldMngt_Bunds FieldMngt_zBund pct
                   cn0 adj zCN nComp prof = (prof', Inr (Runoff, Infl, d)) \<longrightarrow>
                 d = 0 \<and> (\<exists>CN. adjusted_CN th pct cn0 adj zCN nComp prof = (prof', Inr CN)
                               \<and> cn_partition P CN = Inr (Runoff, Infl)))"
  by (auto simp: rainfall_partition_def split: prod.splits sum.splits)

theorem rainfall_partition_override_witness:
  "(0::real) \<le> 20 \<and>
   rainfall_partition 20 [] 4 1 0 0 0 75 0 1 1 prof0 = (prof0, Inr (0, 20, 4)) \<and>
   rainfall_partition 20 [] 4 0 1 (1 / 2) 0 75 0 1 1 prof0 = (prof0, Inr (0, 20, 4)) \<and>
   rainfall_partition 20 [] 4 0 1 0 0 100 0 1 1 prof0 = (prof0, Inr (20, 0, 0))"
proof -
  have "rainfall_partition 20 [] 4 0 1 0 0 100 0 1 1 prof0 = (prof0, Inr (20, 0, 0))"
    by (simp add: rainfall_partition_def adjusted_CN_def cn_partition_def retention_S_def)
  then show ?thesis
    using rainfall_partition_override [of 20 1 0 0 "[]" 4 0 75 0 1 1 prof0]
      rainfall_partition_override [of 20 0 1 "1 / 2" "[]" 4 0 75 0 1 1 prof0]
      rainfall_partition_override [of 20 0 1 0 "[]" 4 0 100 0 1 1 prof0]
    by simp
qed

subsection \<open>The profile is only read\<close>

lemma wrel_loop_keeps:
  "\<forall>j. ii \<le> j \<and> j < ii + n \<and> j < length dzs \<longrightarrow> dzs ! j \<le> zCN \<Longrightarrow>
   fst (wrel_loop zCN n ii xx dzs wrel) = dzs"
proof (induction n arbitrary: ii xx wrel)
  case 0
  then show ?case by simp
next
  case (Suc n)
  show ?case
  proof (cases "length dzs \<le> ii")
    case True
    then show ?thesis by simp
  next
    case False
    with Suc.prems have le: "dzs ! ii \<le> zCN" by simp
    have rest: "\<forall>j. Suc ii \<le> j \<and> j < Suc ii + n \<and> j < length dzs \<longrightarrow> dzs ! j \<le> zCN"
      using Suc.prems by simp
    from False le Suc.IH [OF rest] show ?thesis by (simp add: Let_def)
  qed
qed

text \<open>In a sorted array the entries below \<open>z\<close> come first.\<close>

lemma sorted_below_filter:
  fixes xs :: "real list"
  shows "sorted xs \<Longrightarrow> i + length (filter (\<lambda>d. z \<le> d) xs) < length xs \<Longrightarrow> xs ! i < z"
proof (induction xs arbitrary: i)
  case Nil
  then show ?case by simp
next
  case (Cons x xs)
  show ?case
  proof (cases "z \<le> x")
    case True
    with Cons.prems(1) have "\<forall>y\<in>set xs. z \<le> y" by auto
    then have "filter (\<lambda>d. z \<le> d) xs = xs" by simp
    with True Cons.prems(2) show ?thesis by simp
  next
    case False
    show ?thesis
    proof (cases i)
      case 0
      with False show ?thesis by simp
    next
      case (Suc k)
      with False Cons.prems have "k + length (filter (\<lambda>d. z \<le> d) xs) < length xs" by simp
      with Cons.IH [of k] Cons.prems(1) Suc show ?thesis by simp
    qed
  qed
qed

lemma py_int_pos_le: "0 < py_int x \<Longrightarrow> real_of_int (py_int x) \<le> x"
  by (auto simp: py_int_def split: if_splits)

lemma comp_sto_bound:
  assumes "int i < comp_sto zCN nComp dzs" "nComp \<le> real (length dzs)"
  shows "i + length (filter (\<lambda>d. zCN \<le> d) dzs) < length dzs"
proof -
  let ?c = "length (filter (\<lambda>d. zCN \<le> d) dzs)"
  have eq: "comp_sto zCN nComp dzs = py_int (nComp - real ?c)"
    by (simp add: comp_sto_def Let_def)
  with assms(1) have pos: "0 < py_int (nComp - real ?c)" by simp
  from assms(1) eq have "real i < real_of_int (py_int (nComp - real ?c))" by simp
  also have "\<dots> \<le> nComp - real ?c" using pos by (rule py_int_pos_le)
  finally have "real i + real ?c < real (length dzs)" using assms(2) by simp
  then show ?thesis by (metis of_nat_add of_nat_less_iff)
qed

lemma comp_sto_above:
  assumes "sorted dzs" "nComp \<le> real (length dzs)" "int i < comp_sto zCN nComp dzs"
  shows "i < length dzs \<and> dzs ! i < zCN"
  using comp_sto_bound [OF assms(3,2)] sorted_below_filter [OF assms(1)] by simp

lemma moisture_adjusted_CN_fst:
  "fst (moisture_adjusted_CN CN th zCN nComp prof) =
   (let n = comp_sto zCN nComp (dzsum prof)
    in if n < 0 then prof
       else prof\<lparr>dzsum := fst (wrel_loop zCN (nat n) 0 0 (dzsum prof) (replicate (nat n) 0))\<rparr>)"
  by (auto simp: moisture_adjusted_CN_def Let_def split: prod.splits sum.splits)

lemma moisture_adjusted_CN_frame:
  assumes "sorted (dzsum prof)" "nComp \<le> real (length (dzsum prof))"
  shows "fst (moisture_adjusted_CN CN th zCN nComp prof) = prof"
proof -
  let ?n = "comp_sto zCN nComp (dzsum prof)"
  have "\<forall>j. 0 \<le> j \<and> j < 0 + nat ?n \<and> j < length (dzsum prof) \<longrightarrow> dzsum prof ! j \<le> zCN"
    using comp_sto_above [OF assms, of _ zCN] by (auto simp: less_eq_real_def)
  then have "fst (wrel_loop zCN (nat ?n) 0 0 (dzsum prof) (replicate (nat ?n) 0)) = dzsum prof"
    by (rule wrel_loop_keeps)
  then show ?thesis
    by (simp add: moisture_adjusted_CN_fst Let_def)
qed

lemma rainfall_partition_fst:
  "fst (rainfall_partition P th ds FieldMngt_SRinhb FieldMngt_Bunds FieldMngt_zBund pct cn0
          adj zCN nComp prof) =
   (if FieldMngt_SRinhb = 0 \<and> (FieldMngt_Bunds = 0 \<or> FieldMngt_zBund < 0.001)
    then if adj = 1
         then fst (moisture_adjusted_CN (cn0 * (1 + pct / 100)) th zCN nComp prof)
         else prof
    else prof)"
  by (auto simp: rainfall_partition_def adjusted_CN_def Let_def split: prod.splits sum.splits)

text \<open>
  Claim C10, as the code has it. For every call in which \<open>prof.dzsum\<close> is sorted
  non-decreasing and \<open>Soil_nComp\<close> is at most the number of entries of \<open>prof.dzsum\<close>, the
  profile is the same after the call as before, whether the call returns or raises:
  every index \<open>ii < comp_sto\<close> lies inside the array and has \<open>dzsum[ii] < Soil_zCN\<close>, so
  the assignment of line 112 is never executed.
\<close>

theorem rainfall_partition_profile_unchanged:
  assumes "sorted (dzsum prof)" "Soil_nComp \<le> real (length (dzsum prof))"
  shows "fst (rainfall_partition P th ds FieldMngt_SRinhb FieldMngt_Bunds FieldMngt_zBund pct cn0
                adj Soil_zCN Soil_nComp prof) = prof
         \<and> (\<forall>ii. int ii < comp_sto Soil_zCN Soil_nComp (dzsum prof) \<longrightarrow>
                ii < length (dzsum prof) \<and> dzsum prof ! ii < Soil_zCN)"
  using moisture_adjusted_CN_frame [OF assms] comp_sto_above [OF assms]
  by (simp add: rainfall_partition_fst)

theorem rainfall_partition_profile_unchanged_witness:
  "sorted (dzsum prof0) \<and> (3::real) \<le> real (length (dzsum prof0)) \<and>
   fst (rainfall_partition 20 [0.2, 0.2, 0.2] 4 0 0 0 0 75 1 0.3 3 prof0) = prof0 \<and>
   comp_sto 0.3 3 (dzsum prof0) = 2"
proof -
  have c: "comp_sto 0.3 3 (dzsum prof0) = 2"
    by (simp add: comp_sto_def prof0_def py_int_def)
  show ?thesis
    using rainfall_partition_profile_unchanged
      [of prof0 3 20 "[0.2, 0.2, 0.2]" 4 0 0 0 0 75 1 "0.3"] c
    by (simp add: prof0_def)
qed

text \<open>
  Sortedness alone is not enough, since \<open>Soil_nComp\<close> is passed separately: with three
  sorted entries and \<open>Soil_nComp = 4\<close>, \<open>comp_sto\<close> is 3 and the loop overwrites the third
  entry, 0.5, with \<open>Soil_zCN = 0.3\<close>.
\<close>

theorem rainfall_partition_profile_changed:
  "sorted (dzsum prof0) \<and>
   dzsum (fst (rainfall_partition 20 [0.2, 0.2, 0.2] 4 0 0 0 0 75 1 0.3 4 prof0))
     = [0.1, 0.2, 0.3] \<and>
   fst (rainfall_partition 20 [0.2, 0.2, 0.2] 4 0 0 0 0 75 1 0.3 4 prof0) \<noteq> prof0"
proof -
  have c: "comp_sto 0.3 4 (dzsum prof0) = 3"
    by (simp add: comp_sto_def prof0_def py_int_def)
  have w: "fst (wrel_loop 0.3 (nat 3) 0 0 [0.1, 0.2, 0.5] (replicate (nat 3) 0)) = [0.1, 0.2, 0.3]"
    by (simp add: eval_nat_numeral Let_def)
  show ?thesis using c w
    by (simp add: rainfall_partition_fst moisture_adjusted_CN_fst Let_def prof0_def)
qed

section \<open>Properties of reading the model parameters\<close>

subsection \<open>The soil column\<close>

lemma grow_soil_done: "\<not> zSoil soil < Z + 0.1 \<Longrightarrow> grow_soil Z soil = Some soil"
  by (subst grow_soil.simps) simp

lemma grow_soil_unfold:
  "zSoil soil < Z + 0.1 \<Longrightarrow> grow_soil Z soil = grow_soil Z (grow_step soil)"
  by (subst grow_soil.simps) simp

lemma grow_step_stuck:
  "deepest_thin (profile_dz soil) (length (profile_dz soil)) = None \<Longrightarrow> grow_step soil = soil"
  by (simp add: grow_step_def)

text \<open>
  When the column is too shallow and no compartment is thinner than 0.25, the loop body
  changes nothing and the loop never ends.
\<close>

lemma grow_soil_stuck:
  assumes "deepest_thin (profile_dz soil) (length (profile_dz soil)) = None"
    and "zSoil soil < Z + 0.1"
  shows "grow_soil Z soil = None"
proof (rule ccontr)
  let ?stuck = "\<lambda>Z s. deepest_thin (profile_dz s) (length (profile_dz s)) = None
                   \<and> zSoil s < Z + 0.1"
  assume "grow_soil Z soil \<noteq> None"
  then obtain r where r: "grow_soil Z soil = Some r" by auto
  have "\<not> ?stuck Z soil"
  proof (rule grow_soil.raw_induct [where P = "\<lambda>Z s r. \<not> ?stuck Z s", OF _ r])
    fix grow Z' s r'
    assume IH: "\<And>Z s y. grow Z s = Some y \<Longrightarrow> \<not> ?stuck Z s"
      and eq: "(if zSoil s < Z' + 1 / 10 then grow Z' (grow_step s) else Some s) = Some r'"
    show "\<not> ?stuck Z' s"
    proof
      assume a: "?stuck Z' s"
      then have "grow_step s = s" by (simp add: grow_step_stuck)
      with a eq have "grow Z' s = Some r'" by simp
      from IH [OF this] a show False by simp
    qed
  qed
  with assms show False by simp
qed

text \<open>
  That is the only way for it not to end: every run of the body that finds a thin
  compartment uses up one of finitely many increments.
\<close>

lemma deepest_thin_Some:
  "deepest_thin dzs n = Some i \<Longrightarrow> i < n \<and> dzs ! i < 0.25"
  by (induction n) (auto split: if_splits simp: less_Suc_eq)

lemma thin_step_less:
  fixes d :: real
  assumes "d < 0.25"
  shows "nat \<lceil>(0.25 - (d + 0.1)) / 0.1\<rceil> < nat \<lceil>(0.25 - d) / 0.1\<rceil>"
proof -
  have "(0.25 - (d + 0.1)) / 0.1 = (0.25 - d) / 0.1 - 1" by (simp add: field_simps)
  then have "\<lceil>(0.25 - (d + 0.1)) / 0.1\<rceil> = \<lceil>(0.25 - d) / 0.1 - 1\<rceil>" by (simp only:)
  also have "\<dots> = \<lceil>(0.25 - d) / 0.1\<rceil> - 1" by (rule ceiling_diff_one)
  finally have "\<lceil>(0.25 - (d + 0.1)) / 0.1\<rceil> = \<lceil>(0.25 - d) / 0.1\<rceil> - 1" .
  moreover have "0 < \<lceil>(0.25 - d) / 0.1\<rceil>" using assms by (simp add: field_simps)
  ultimately show ?thesis by simp
qed

lemma sum_list_update_less:
  fixes f :: "real \<Rightarrow> nat"
  assumes "i < length xs" "f v < f (xs ! i)"
  shows "sum_list (map f (xs[i := v])) < sum_list (map f xs)"
  using assms
proof (induction xs arbitrary: i)
  case Nil
  then show ?case by simp
next
  case (Cons x xs)
  then show ?case by (cases i) auto
qed

lemma grow_step_decreases:
  assumes "deepest_thin (profile_dz soil) (length (profile_dz soil)) = Some i"
  shows "increments_left (profile_dz (grow_step soil)) < increments_left (profile_dz soil)"
proof -
  from deepest_thin_Some [OF assms]
  have i: "i < length (profile_dz soil)" and t: "profile_dz soil ! i < 0.25" by simp_all
  have "profile_dz (grow_step soil) = (profile_dz soil)[i := profile_dz soil ! i + 0.1]"
    using assms by (simp add: grow_step_def fill_nan_def)
  with i thin_step_less [OF t] show ?thesis
    by (simp add: increments_left_def sum_list_update_less)
qed

lemma grow_soil_ends_unless_stuck:
  "grow_soil Z soil \<noteq> None \<or>
   (\<exists>k. deepest_thin (profile_dz ((grow_step ^^ k) soil))
            (length (profile_dz ((grow_step ^^ k) soil))) = None
        \<and> zSoil ((grow_step ^^ k) soil) < Z + 0.1)"
proof (induction "increments_left (profile_dz soil)" arbitrary: soil rule: less_induct)
  case less
  show ?case
  proof (cases "zSoil soil < Z + 0.1")
    case False
    then show ?thesis by (simp add: grow_soil_done)
  next
    case True
    show ?thesis
    proof (cases "deepest_thin (profile_dz soil) (length (profile_dz soil))")
      case None
      with True have "deepest_thin (profile_dz ((grow_step ^^ 0) soil))
            (length (profile_dz ((grow_step ^^ 0) soil))) = None
        \<and> zSoil ((grow_step ^^ 0) soil) < Z + 0.1" by simp
      then show ?thesis by blast
    next
      case (Some i)
      from less [OF grow_step_decreases [OF Some]]
      show ?thesis
      proof
        assume "grow_soil Z (grow_step soil) \<noteq> None"
        with True show ?thesis by (simp add: grow_soil_unfold)
      next
        assume "\<exists>k. deepest_thin (profile_dz ((grow_step ^^ k) (grow_step soil)))
            (length (profile_dz ((grow_step ^^ k) (grow_step soil)))) = None
            \<and> zSoil ((grow_step ^^ k) (grow_step soil)) < Z + 0.1"
        then obtain k where "deepest_thin (profile_dz ((grow_step ^^ Suc k) soil))
            (length (profile_dz ((grow_step ^^ Suc k) soil))) = None
            \<and> zSoil ((grow_step ^^ Suc k) soil) < Z + 0.1"
          by (auto simp: funpow_swap1)
        then show ?thesis by blast
      qed
    qed
  qed
qed

lemma soil0_deep: "grow_soil (Zmax crop0) (fill_nan soil0) = Some soil0"
proof -
  have "fill_nan soil0 = soil0" by (simp add: fill_nan_def soil0_def)
  moreover have "\<not> zSoil soil0 < Zmax crop0 + 0.1" by (simp add: soil0_def crop0_def)
  ultimately show ?thesis by (simp add: grow_soil_done)
qed

text \<open>
  A column that can grow: two compartments of 0.1 m under a crop rooting to 0.3 m. The
  lower compartment is thickened twice and the loop ends at a depth of 0.4 m.
\<close>

lemma grow_soil_example:
  "grow_soil 0.3 (fill_nan \<lparr>profile_dz = [0.1, 0.1], profile_dzsum = [], zSoil = 0\<rparr>)
     = Some \<lparr>profile_dz = [0.1, 0.3], profile_dzsum = [0.1, 0.4], zSoil = 0.4\<rparr>"
  by (simp add: grow_soil_unfold grow_soil_done fill_nan_def grow_step_def eval_nat_numeral)

text \<open>
  Claim C3 asks that the loop of lines 57--62 end on every input, with an error when no
  compartment can grow. On a column of one compartment of 0.3 m and a crop rooting to
  1 m, the loop never ends and neither does the function: no exception is raised.
\<close>

theorem grow_soil_never_ends:
  "grow_soil (Zmax (crop0\<lparr>Zmax := 1\<rparr>)) (fill_nan soil_thick) = None \<and>
   read_model_parameters ccc_id csfs_id (clock0 2000 2 15 2002 12 31) soil_thick
     (crop0\<lparr>Zmax := 1\<rparr>) () = None"
proof -
  have "grow_soil 1 (fill_nan soil_thick) = None"
    by (rule grow_soil_stuck) (simp_all add: fill_nan_def soil_thick_def)
  then show ?thesis by (simp add: read_model_parameters_def crop0_def)
qed

subsection \<open>A missing stress value\<close>




subsection \<open>Calendar-days mode\<close>



subsection \<open>The closest row of the stress-response curve\<close>

text \<open>The scan returns the first index of the minimum of all entries seen.\<close>

lemma argmin_scan_first_min:
  assumes "i = length pre" "best < i" "pre ! best = v"
    and "\<forall>j<i. v \<le> pre ! j" "\<forall>j<best. v < pre ! j"
  shows "argmin_scan xs i best v < length (pre @ xs)
       \<and> (\<forall>j<length (pre @ xs). (pre @ xs) ! argmin_scan xs i best v \<le> (pre @ xs) ! j)
       \<and> (\<forall>j<argmin_scan xs i best v.
            (pre @ xs) ! argmin_scan xs i best v < (pre @ xs) ! j)"
  using assms
proof (induction xs arbitrary: pre i best v)
  case Nil
  then show ?case by simp
next
  case (Cons x xs)
  let ?pre = "pre @ [x]"
  have app: "?pre @ xs = pre @ x # xs" by simp
  show ?case
  proof (cases "x < v")
    case True
    have 1: "Suc i = length ?pre" using Cons.prems(1) by simp
    have 2: "i < Suc i" by simp
    have 3: "?pre ! i = x" using Cons.prems(1) by simp
    have 4: "\<forall>j<Suc i. x \<le> ?pre ! j"
    proof (intro allI impI)
      fix j assume "j < Suc i"
      then show "x \<le> ?pre ! j"
        using Cons.prems(1,4) True by (cases "j = i") (auto simp: nth_append less_Suc_eq)
    qed
    have 5: "\<forall>j<i. x < ?pre ! j"
      using Cons.prems(1,4) True by (auto simp: nth_append)
    from Cons.IH [OF 1 2 3 4 5] True show ?thesis by simp
  next
    case False
    have 1: "Suc i = length ?pre" using Cons.prems(1) by simp
    have 2: "best < Suc i" using Cons.prems(2) by simp
    have 3: "?pre ! best = v" using Cons.prems(1,2,3) by (simp add: nth_append)
    have 4: "\<forall>j<Suc i. v \<le> ?pre ! j"
    proof (intro allI impI)
      fix j assume "j < Suc i"
      then show "v \<le> ?pre ! j"
        using Cons.prems(1,4) False by (cases "j = i") (auto simp: nth_append less_Suc_eq)
    qed
    have 5: "\<forall>j<best. v < ?pre ! j"
      using Cons.prems(1,2,5) by (auto simp: nth_append)
    from Cons.IH [OF 1 2 3 4 5] False show ?thesis by simp
  qed
qed

lemma np_argmin_first_min:
  assumes "xs \<noteq> []"
  shows "\<exists>r. np_argmin xs = Inr r \<and> r < length xs
           \<and> (\<forall>j<length xs. xs ! r \<le> xs ! j) \<and> (\<forall>j<r. xs ! r < xs ! j)"
proof -
  from assms obtain x xs' where xs: "xs = x # xs'" by (cases xs) auto
  have "argmin_scan xs' 1 0 x < length ([x] @ xs')
       \<and> (\<forall>j<length ([x] @ xs'). ([x] @ xs') ! argmin_scan xs' 1 0 x \<le> ([x] @ xs') ! j)
       \<and> (\<forall>j<argmin_scan xs' 1 0 x. ([x] @ xs') ! argmin_scan xs' 1 0 x < ([x] @ xs') ! j)"
    by (rule argmin_scan_first_min) simp_all
  then show ?thesis by (simp add: xs np_argmin_def)
qed

lemma closest_index_first_min:
  assumes "sf \<noteq> []"
  shows "\<exists>loc. closest_index sf t = Inr loc \<and> loc < min 100 (length sf)
           \<and> (\<forall>j<min 100 (length sf). \<bar>sf ! loc - t\<bar> \<le> \<bar>sf ! j - t\<bar>)
           \<and> (\<forall>j<loc. \<bar>sf ! loc - t\<bar> < \<bar>sf ! j - t\<bar>)"
proof -
  let ?ds = "map (\<lambda>s. \<bar>s - t\<bar>) (take 100 sf)"
  have ne: "?ds \<noteq> []" using assms by simp
  have len: "length ?ds = min 100 (length sf)" by (simp add: min.commute)
  obtain r where r: "np_argmin ?ds = Inr r" "r < length ?ds"
      "\<forall>j<length ?ds. ?ds ! r \<le> ?ds ! j" "\<forall>j<r. ?ds ! r < ?ds ! j"
    using np_argmin_first_min [OF ne] by blast
  have nth: "\<And>j. j < min 100 (length sf) \<Longrightarrow> ?ds ! j = \<bar>sf ! j - t\<bar>"
    by simp
  have "\<forall>j<min 100 (length sf). \<bar>sf ! r - t\<bar> \<le> \<bar>sf ! j - t\<bar>"
    using r(2,3) nth len by metis
  moreover have "\<forall>j<r. \<bar>sf ! r - t\<bar> < \<bar>sf ! j - t\<bar>"
  proof (intro allI impI)
    fix j assume "j < r"
    with r(2) len have "j < min 100 (length sf)" by simp
    with r(2,4) nth len \<open>j < r\<close> show "\<bar>sf ! r - t\<bar> < \<bar>sf ! j - t\<bar>" by metis
  qed
  ultimately show ?thesis using r(1,2) len by (simp add: closest_index_def)
qed

lemma closest_index_exact:
  assumes "k < min 100 (length sf)" "sorted_wrt (<) (take 100 sf)"
  shows "closest_index sf (sf ! k) = Inr k"
proof -
  from assms(1) have ne: "sf \<noteq> []" by auto
  obtain loc where loc: "closest_index sf (sf ! k) = Inr loc" "loc < min 100 (length sf)"
      "\<forall>j<min 100 (length sf). \<bar>sf ! loc - sf ! k\<bar> \<le> \<bar>sf ! j - sf ! k\<bar>"
      "\<forall>j<loc. \<bar>sf ! loc - sf ! k\<bar> < \<bar>sf ! j - sf ! k\<bar>"
    using closest_index_first_min [OF ne, of "sf ! k"] by blast
  from loc(3) assms(1) have eq: "sf ! loc = sf ! k" by fastforce
  have d: "distinct (take 100 sf)" using assms(2) by (simp add: strict_sorted_iff)
  have b: "loc < length (take 100 sf)" "k < length (take 100 sf)"
    using loc(2) assms(1) by simp_all
  have "take 100 sf ! loc = take 100 sf ! k" using eq loc(2) assms(1) by simp
  with nth_eq_iff_index_eq [OF d b] have "loc = k" by simp
  with loc(1) show ?thesis by simp
qed

text \<open>
  Claim C7, as the code has it. With a non-zero target stress and a non-empty curve
  whose coefficient arrays cover its first 100 rows, the calibrator selects among the
  first 100 rows the index \<open>loc\<close> of minimum absolute difference between
  \<open>stress_fraction\<close> and the target, the lowest such index on ties; when the first 100
  rows are strictly increasing and the target equals the entry at \<open>k\<close>, it selects \<open>k\<close>.
  It sets the four coefficients \<open>Ksccx\<close>, \<open>Ksexpf\<close>, \<open>Kswp\<close> and \<open>fcdecline\<close> to their
  entries at \<open>loc\<close> and changes no other field of the crop: the relative-biomass array
  is written back whole, and no entry of it is read.
\<close>

theorem calibrate_select_closest:
  assumes "sfertstress crop \<noteq> 0" "sf_es crop \<noteq> []"
    and "min 100 (length (sf_es crop)) \<le> length (Ksccx_es crop)"
    and "min 100 (length (sf_es crop)) \<le> length (Ksexpf_es crop)"
    and "min 100 (length (sf_es crop)) \<le> length (Kswp_es crop)"
    and "min 100 (length (sf_es crop)) \<le> length (fcdecline_es crop)"
  shows "\<exists>loc. closest_index (sf_es crop) (sfertstress crop) = Inr loc
           \<and> loc < min 100 (length (sf_es crop))
           \<and> (\<forall>j<min 100 (length (sf_es crop)).
                 \<bar>sf_es crop ! loc - sfertstress crop\<bar> \<le> \<bar>sf_es crop ! j - sfertstress crop\<bar>)
           \<and> (\<forall>j<loc. \<bar>sf_es crop ! loc - sfertstress crop\<bar>
                         < \<bar>sf_es crop ! j - sfertstress crop\<bar>)
           \<and> (\<forall>k<min 100 (length (sf_es crop)).
                 sorted_wrt (<) (take 100 (sf_es crop)) \<and> sfertstress crop = sf_es crop ! k
                   \<longrightarrow> loc = k)
           \<and> calibrate_select crop =
               (crop\<lparr>Ksccx := Ksccx_es crop ! loc, Ksexpf := Ksexpf_es crop ! loc,
                     Kswp := Kswp_es crop ! loc, fcdecline := fcdecline_es crop ! loc\<rparr>,
                Inr ())"
proof -
  obtain loc where loc: "closest_index (sf_es crop) (sfertstress crop) = Inr loc"
      "loc < min 100 (length (sf_es crop))"
      "\<forall>j<min 100 (length (sf_es crop)).
         \<bar>sf_es crop ! loc - sfertstress crop\<bar> \<le> \<bar>sf_es crop ! j - sfertstress crop\<bar>"
      "\<forall>j<loc. \<bar>sf_es crop ! loc - sfertstress crop\<bar> < \<bar>sf_es crop ! j - sfertstress crop\<bar>"
    using closest_index_first_min [OF assms(2)] by blast
  have ex: "\<forall>k<min 100 (length (sf_es crop)).
              sorted_wrt (<) (take 100 (sf_es crop)) \<and> sfertstress crop = sf_es crop ! k
                \<longrightarrow> loc = k"
    using closest_index_exact [of _ "sf_es crop"] loc(1) by auto
  have sel: "calibrate_select crop =
               (crop\<lparr>Ksccx := Ksccx_es crop ! loc, Ksexpf := Ksexpf_es crop ! loc,
                     Kswp := Kswp_es crop ! loc, fcdecline := fcdecline_es crop ! loc\<rparr>,
                Inr ())"
  proof -
    have "loc < length (Ksccx_es crop)" "loc < length (Ksexpf_es crop)"
      "loc < length (Kswp_es crop)" "loc < length (fcdecline_es crop)"
      using assms(3-6) loc(2) by linarith+
    with assms(1) loc(1) show ?thesis
      by (simp add: calibrate_select_def at_index_def)
  qed
  from loc ex sel show ?thesis by blast
qed

theorem calibrate_select_closest_witness:
  "sfertstress crop0 \<noteq> 0 \<and> sorted_wrt (<) (take 100 (sf_es crop0)) \<and>
   sfertstress crop0 = sf_es crop0 ! 2 \<and>
   closest_index (sf_es crop0) (sfertstress crop0) = Inr 2 \<and>
   calibrate_select crop0 =
     (crop0\<lparr>Ksccx := 0.94, Ksexpf := 0.8, Kswp := 0.9, fcdecline := 0.02\<rparr>, Inr ())"
proof -
  have s: "sorted_wrt (<) (take 100 (sf_es crop0))" by (simp add: crop0_def)
  have k: "sfertstress crop0 = sf_es crop0 ! 2" by (simp add: crop0_def)
  have l: "(2::nat) < min 100 (length (sf_es crop0))" by (simp add: crop0_def)
  have n: "sfertstress crop0 \<noteq> 0" by (simp add: crop0_def)
  obtain loc where loc: "closest_index (sf_es crop0) (sfertstress crop0) = Inr loc"
      "\<forall>k<min 100 (length (sf_es crop0)).
          sorted_wrt (<) (take 100 (sf_es crop0)) \<and> sfertstress crop0 = sf_es crop0 ! k 
            \<longrightarrow> loc = k"
      "calibrate_select crop0 =
         (crop0\<lparr>Ksccx := Ksccx_es crop0 ! loc, Ksexpf := Ksexpf_es crop0 ! loc,
                Kswp := Kswp_es crop0 ! loc, fcdecline := fcdecline_es crop0 ! loc\<rparr>, Inr ())"
    using calibrate_select_closest [of crop0] by (auto simp: crop0_def)
  from loc(2) s k l have "loc = 2" by blast
  with loc(1,3) s k n show ?thesis by (simp add: crop0_def)
qed

text \<open>
  The claim has the relative biomass read at the selected index too. With an empty
  relative-biomass array such a read would be an IndexError; the calibrator returns
  normally. And where the curve only does not decrease, a target equal to the entry at
  index 2 selects the equal entry at index 1.
\<close>

theorem calibrate_select_ignores_relbio:
  "calibrate_select (crop0\<lparr>relbio_es := []\<rparr>) =
     (crop0\<lparr>relbio_es := [], Ksccx := 0.94, Ksexpf := 0.8, Kswp := 0.9, fcdecline := 0.02\<rparr>,
      Inr ()) \<and>
   sorted [0, 0.2, 0.2, 0.3 :: real] \<and>
   closest_index [0, 0.2, 0.2, 0.3] ([0, 0.2, 0.2, 0.3] ! 2) = Inr 1"
  by (simp add: calibrate_select_def closest_index_def np_argmin_def at_index_def crop0_def
      Let_def)

subsection \<open>Dates that exist in 1990 exist in every year\<close>


lemma days_in_month_1990_le: "days_in_month 1990 m \<le> days_in_month y m"
  by (simp add: days_in_month_def is_leap_def)

lemma to_datetime_any_year:
  assumes "to_datetime 1990 md = Inr d"
  shows "to_datetime y md = Inr \<lparr>year = y, month = fst md, day = snd md\<rparr>"
proof -
  from assms have "1 \<le> fst md \<and> fst md \<le> 12 \<and> 1 \<le> snd md
      \<and> snd md \<le> days_in_month 1990 (fst md)"
    by (auto simp: to_datetime_def Let_def split: if_splits)
  with days_in_month_1990_le [of "fst md" y] show ?thesis
    by (simp add: to_datetime_def Let_def)
qed

lemma to_datetimes_any_years:
  assumes "to_datetime 1990 md = Inr d"
  shows "to_datetimes ys md = Inr (map (\<lambda>y. \<lparr>year = y, month = fst md, day = snd md\<rparr>) ys)"
  by (induction ys) (simp_all add: to_datetime_any_year [OF assms])


lemma add_days_0: "add_days 0 d = d"
  by (simp add: add_days_def)

lemma add_days_pos: "0 < n \<Longrightarrow> add_days n d = add_days (n - 1) (next_day d)"
proof -
  assume "0 < n"
  then obtain k where k: "nat n = Suc k" "nat (n - 1) = k" by (cases "nat n") auto
  with \<open>0 < n\<close> show ?thesis by (simp add: add_days_def funpow_swap1)
qed

subsection \<open>The example crop\<close>

lemma add_130:
  "add_days 130 \<lparr>year = 1990, month = 5, day = 10\<rparr> = \<lparr>year = 1990, month = 9, day = 17\<rparr>"
  by (simp add: add_days_pos add_days_0 next_day_def days_in_month_def is_leap_def)

lemma calendar_mode_crop0:
  "calendar_mode ccc_id csfs_id clock_struct () crop0 = (crop0\<lparr>harvest_date := (9, 17)\<rparr>, Inr ())"
  by (simp add: calendar_mode_def crop0_def ccc_id_def to_datetime_def days_in_month_def
      add_130 Let_def)

lemma base_years_one:
  "base_years (5, 10) (9, 17) \<lparr>year = 2000, month = 6, day = 15\<rparr>
     \<lparr>year = 2000, month = 12, day = 31\<rparr> = Inr ([2000], [2000])"
  by (simp add: base_years_def to_datetime_def days_in_month_def date_less_def date_le_def
      Let_def upto.simps)

lemma base_years_three:
  "base_years (5, 10) (9, 17) \<lparr>year = 2000, month = 6, day = 15\<rparr>
     \<lparr>year = 2002, month = 12, day = 31\<rparr> = Inr ([2000, 2001, 2002], [2000, 2001, 2002])"
  by (simp add: base_years_def to_datetime_def days_in_month_def date_less_def date_le_def
      Let_def upto.simps)

subsection \<open>The years of a single-year season\<close>




subsection \<open>The partial first season\<close>

lemma base_years_valid:
  assumes "base_years planting harvest s e = Inr r"
  shows "(\<exists>d. to_datetime 1990 planting = Inr d) \<and> (\<exists>d. to_datetime 1990 harvest = Inr d)"
  using assms by (auto simp: base_years_def Let_def split: sum.splits)

lemma base_years_shape:
  assumes "base_years planting harvest s e = Inr (ps, hs)"
  shows "\<exists>b. ps = [year s .. b] \<and> (hs = ps \<or> hs = [year s + 1 .. b + 1])"
  using assms by (auto simp: base_years_def Let_def split: sum.splits if_splits)

lemma base_years_lengths:
  assumes "base_years planting harvest s e = Inr (ps, hs)"
  shows "length ps = length hs"
  using base_years_shape [OF assms] by auto

lemma upto_tail: "[a .. b] = y0 # rest \<Longrightarrow> y0 = a \<and> rest = [a + 1 .. b]"
  by (cases "a \<le> b") (auto simp: upto_rec1)

text \<open>The assertion of line 300 never fails.\<close>

lemma season_years_no_assertion:
  "season_years planting harvest s e \<noteq> Inl AssertionError"
proof (cases "base_years planting harvest s e")
  case (Inl err)
  then show ?thesis
    by (auto simp: base_years_def season_years_def to_datetime_def Let_def
        split: sum.splits if_splits)
next
  case (Inr r)
  obtain ps hs where r: "r = (ps, hs)" by (cases r)
  from Inr r have "length ps = length hs" by (simp add: base_years_lengths)
  with Inr r show ?thesis
    by (auto simp: season_years_def to_datetime_def Let_def split: list.splits sum.splits)
qed

text \<open>
  Claim C9, as the code has it. Whenever \<open>plant_years\<close> is not empty and the first
  planting date precedes the start of the simulation, the first element of both lists
  is dropped and the two lists keep equal lengths. When at least two planting years
  were computed, the seasons are set, and the first planting date is that of the second
  year. (When there was a single planting year the lists become empty, and line 326
  raises IndexError.)
\<close>

theorem partial_first_season_dropped:
  assumes b: "base_years planting harvest sim_start_date sim_end_date
                = Inr (y0 # rest, harvest_years)"
    and f: "to_datetime y0 planting = Inr first_planting"
    and l: "date_less first_planting sim_start_date"
    and c: "planting_date crop = planting" "harvest_date crop = harvest"
  shows "season_years planting harvest sim_start_date sim_end_date
           = Inr (rest, drop 1 harvest_years)
       \<and> length rest = length (drop 1 harvest_years)
       \<and> (rest \<noteq> [] \<longrightarrow>
            hd rest = y0 + 1 \<and>
            (\<exists>clock'. set_seasons crop rest (drop 1 harvest_years) clock_struct
                        = (clock', Inr \<lparr>NCrops = 1, CropChoices = map (\<lambda>_. Name crop) rest\<rparr>)
                \<and> hd (planting_dates clock')
                    = \<lparr>year = y0 + 1, month = fst planting, day = snd planting\<rparr>
                \<and> length (planting_dates clock') = length rest
                \<and> length (harvest_dates clock') = length rest))
       \<and> (rest = [] \<longrightarrow>
            set_seasons crop rest (drop 1 harvest_years) clock_struct
              = (clock_struct\<lparr>planting_dates := [], harvest_dates := [], n_seasons := 0\<rparr>,
                 Inl IndexError))"
proof -
  have len: "length (y0 # rest) = length harvest_years" using b by (rule base_years_lengths)
  then have len': "length rest = length (drop 1 harvest_years)" by simp
  have sy: "season_years planting harvest sim_start_date sim_end_date
              = Inr (rest, drop 1 harvest_years)"
    using b f l len' by (simp add: season_years_def)
  obtain dp dh where v: "to_datetime 1990 planting = Inr dp" "to_datetime 1990 harvest = Inr dh"
    using base_years_valid [OF b] by blast
  note pd = to_datetimes_any_years [OF v(1)] and hd = to_datetimes_any_years [OF v(2)]
  obtain bb where "y0 # rest = [year sim_start_date .. bb]"
    using base_years_shape [OF b] by blast
  then have r: "rest = [y0 + 1 .. bb]"
    using upto_tail [of "year sim_start_date" bb y0 rest] by simp
  have hd_rest: "rest \<noteq> [] \<longrightarrow> hd rest = y0 + 1"
  proof
    assume "rest \<noteq> []"
    with r have "y0 + 1 \<le> bb" by auto
    with r show "hd rest = y0 + 1" by (simp add: upto_rec1)
  qed
  have empty: "rest = [] \<longrightarrow>
      set_seasons crop rest (drop 1 harvest_years) clock_struct
        = (clock_struct\<lparr>planting_dates := [], harvest_dates := [], n_seasons := 0\<rparr>,
           Inl IndexError)"
    using len' by (auto simp: set_seasons_def Let_def)
  have nonempty: "rest \<noteq> [] \<longrightarrow>
       (\<exists>clock'. set_seasons crop rest (drop 1 harvest_years) clock_struct
                        = (clock', Inr \<lparr>NCrops = 1, CropChoices = map (\<lambda>_. Name crop) rest\<rparr>)
                \<and> hd (planting_dates clock')
                    = \<lparr>year = y0 + 1, month = fst planting, day = snd planting\<rparr>
                \<and> length (planting_dates clock') = length rest
                \<and> length (harvest_dates clock') = length rest)"
  proof
    assume ne: "rest \<noteq> []"
    then obtain y1 ys where rs: "rest = y1 # ys" by (cases rest) auto
    with hd_rest have y1: "y1 = y0 + 1" by simp
    show "\<exists>clock'. set_seasons crop rest (drop 1 harvest_years) clock_struct
                        = (clock', Inr \<lparr>NCrops = 1, CropChoices = map (\<lambda>_. Name crop) rest\<rparr>)
                \<and> hd (planting_dates clock')
                    = \<lparr>year = y0 + 1, month = fst planting, day = snd planting\<rparr>
                \<and> length (planting_dates clock') = length rest
                \<and> length (harvest_dates clock') = length rest"
      using len' by (simp add: set_seasons_def Let_def c pd hd rs y1)
  qed
  from sy len' hd_rest nonempty empty show ?thesis by blast
qed

theorem partial_first_season_dropped_witness:
  "date_less \<lparr>year = 2000, month = 5, day = 10\<rparr> \<lparr>year = 2000, month = 6, day = 15\<rparr> \<and>
   season_years (5, 10) (9, 17) \<lparr>year = 2000, month = 6, day = 15\<rparr>
     \<lparr>year = 2002, month = 12, day = 31\<rparr> = Inr ([2001, 2002], [2001, 2002]) \<and>
   planting_dates (fst (set_seasons (crop0\<lparr>harvest_date := (9, 17)\<rparr>) [2001, 2002]
      [2001, 2002] (clock0 2000 6 15 2002 12 31)))
     = [\<lparr>year = 2001, month = 5, day = 10\<rparr>, \<lparr>year = 2002, month = 5, day = 10\<rparr>]"
proof -
  have f: "to_datetime 2000 (5, 10) = Inr \<lparr>year = 2000, month = 5, day = 10\<rparr>"
    by (simp add: to_datetime_def days_in_month_def)
  have l: "date_less \<lparr>year = 2000, month = 5, day = 10\<rparr> \<lparr>year = 2000, month = 6, day = 15\<rparr>"
    by (simp add: date_less_def)
  have c: "planting_date (crop0\<lparr>harvest_date := (9, 17)\<rparr>) = (5, 10)"
    "harvest_date (crop0\<lparr>harvest_date := (9, 17)\<rparr>) = (9, 17)"
    by (simp_all add: crop0_def)
  have p: "planting_dates (fst (set_seasons (crop0\<lparr>harvest_date := (9, 17)\<rparr>) [2001, 2002]
      [2001, 2002] (clock0 2000 6 15 2002 12 31)))
     = [\<lparr>year = 2001, month = 5, day = 10\<rparr>, \<lparr>year = 2002, month = 5, day = 10\<rparr>]"
    by (simp add: set_seasons_def crop0_def to_datetime_def days_in_month_def Let_def)
  from partial_first_season_dropped [OF base_years_three f l c] l p show ?thesis by simp
qed

text \<open>
  A simulation from 15 June to 31 December 2000: the only planting date, 10 May 2000,
  precedes the start, the lists become empty, and the function raises IndexError. No
  sequence of seasons is returned, so none whose first entry is the second year.
\<close>

theorem single_season_dropped_raises:
  "read_model_parameters ccc_id csfs_id (clock0 2000 6 15 2000 12 31) soil0 crop0 () =
     Some \<lparr>soil_out = soil0, crop_out = crop0\<lparr>harvest_date := (9, 17)\<rparr>,
           clock_out = (clock0 2000 6 15 2000 12 31)
             \<lparr>planting_dates := [], harvest_dates := [], n_seasons := 0\<rparr>,
           returned = Inl IndexError\<rparr>"
proof -
  have s: "season_years (5, 10) (9, 17) \<lparr>year = 2000, month = 6, day = 15\<rparr>
     \<lparr>year = 2000, month = 12, day = 31\<rparr> = Inr ([], [])"
    by (simp add: season_years_def base_years_one to_datetime_def days_in_month_def
        date_less_def)
  have c: "planting_date (crop0\<lparr>harvest_date := (9, 17)\<rparr>) = (5, 10)"
    "harvest_date (crop0\<lparr>harvest_date := (9, 17)\<rparr>) = (9, 17)"
    by (simp_all add: crop0_def)
  show ?thesis
    by (simp add: read_model_parameters_def soil0_deep after_soil_def calendar_mode_crop0 c
        clock0_def s set_seasons_def)
qed

end
